theory Spec2Isabelle
  imports Main "HOL-Library.Word"
begin

section \<open>The address reporter of \<^verbatim>\<open>a_memory-address/stack_heap.c\<close>\<close>

text \<open>
  The program places one \<^verbatim>\<open>int\<close> in each storage class (static, automatic,
  allocated), prints the three addresses with \<^verbatim>\<open>%p\<close> and releases the allocated one:
  \<^verbatim>\<open>
  int global_var = 42;
  int main() {
      int stack_var = 10;
      int *heap_var = malloc(sizeof(int));
      *heap_var = 20;
      printf("Address of stack_var: %p\n", (void*)&stack_var);
      printf("Address of heap_var: %p\n", (void*)heap_var);
      printf("Address of global_var: %p\n", (void*)&global_var);
      free(heap_var);
      return 0;
  }
  \<close>
  The embedding keeps an explicit store of live objects, because the store through
  \<^verbatim>\<open>heap_var\<close> and the two other variables are told apart only by their addresses.
\<close>

subsection \<open>Values, pointers, objects\<close>

text \<open>
  Addresses are natural numbers. An \<^verbatim>\<open>int\<close> is a 32-bit word that occupies
  \<open>sizeof_int = 4\<close> address units (the program does no arithmetic, so signedness plays
  no role). A pointer is the null pointer or the address of a byte.
\<close>

type_synonym addr = nat
type_synonym cint = "32 word"

datatype pointer = NULL | Ptr addr

definition sizeof_int :: nat where
  "sizeof_int = 4"

datatype storage = Static | Automatic | Allocated

record object =
  obj_base :: addr
  obj_size :: nat
  obj_class :: storage
  obj_value :: "cint option"  \<comment> \<open>\<open>None\<close>: indeterminate (never assigned)\<close>

type_synonym memory = "object list"

subsection \<open>What the implementation decides\<close>

text \<open>
  The source fixes neither where the loader puts \<^verbatim>\<open>global_var\<close>, nor where the frame
  of \<^verbatim>\<open>main\<close> puts \<^verbatim>\<open>stack_var\<close>, nor what \<^verbatim>\<open>malloc\<close> returns, nor how \<^verbatim>\<open>%p\<close>
  renders a pointer. A \<open>world\<close> records these choices of one run, next to the inputs a
  process is started with (which \<^verbatim>\<open>int main()\<close> has no parameter to receive).
\<close>

record world =
  argv :: "string list"
  environ :: "(string \<times> string) list"
  stdin :: string
  global_addr :: addr
  stack_addr :: addr
  malloc_result :: pointer
  fmt_ptr :: "pointer \<Rightarrow> string"

text \<open>
  C gives every live object storage of its own: no object sits at the null address, and
  objects whose lifetimes overlap do not share an address unit; \<^verbatim>\<open>malloc\<close> returns
  either the null pointer or space disjoint from every other object. The three objects of
  this program are live together from the allocation to the release, so the choices of a
  world are those of a C implementation exactly when \<open>placement_ok\<close> holds.
\<close>

fun disjoint_ranges :: "(addr \<times> nat) list \<Rightarrow> bool" where
  "disjoint_ranges [] = True"
| "disjoint_ranges ((a, n) # rs) =
     (0 < a \<and> list_all (\<lambda>(b, k). a + n \<le> b \<or> b + k \<le> a) rs \<and> disjoint_ranges rs)"

definition placement_ok :: "world \<Rightarrow> bool" where
  "placement_ok w =
     disjoint_ranges
       ((global_addr w, sizeof_int) # (stack_addr w, sizeof_int) #
        (case malloc_result w of NULL \<Rightarrow> [] | Ptr h \<Rightarrow> [(h, sizeof_int)]))"

subsection \<open>Program state\<close>

datatype fault =
    NullDereference   \<comment> \<open>access through the null pointer\<close>
  | InvalidAccess     \<comment> \<open>access to an address where no live \<^verbatim>\<open>int\<close> starts\<close>
  | InvalidFree       \<comment> \<open>\<^verbatim>\<open>free\<close> of a pointer that is not a live allocation\<close>
  | Uninitialised     \<comment> \<open>read of a local before its declaration\<close>
  | BadFormat         \<comment> \<open>a conversion without argument, or one other than \<^verbatim>\<open>%p\<close>\<close>

datatype event =
    EvAuto addr cint
  | EvMalloc nat pointer
  | EvStore pointer cint
  | EvPrintf string "pointer list"
  | EvFree pointer
  | EvReturn cint

record state =
  mem :: memory
  heap_var :: "pointer option"   \<comment> \<open>the local \<^verbatim>\<open>int *heap_var\<close>; its address is never taken\<close>
  out :: string                  \<comment> \<open>what has been written to standard output\<close>
  trace :: "event list"          \<comment> \<open>the operations performed so far, oldest first\<close>
  exit_status :: "cint option"   \<comment> \<open>set by \<^verbatim>\<open>return\<close> from \<^verbatim>\<open>main\<close>\<close>

type_synonym stmt = "state \<Rightarrow> fault + state"

subsection \<open>Memory operations\<close>

definition lookup :: "memory \<Rightarrow> addr \<Rightarrow> object option" where
  "lookup m a = find (\<lambda>ob. obj_base ob = a) m"

definition load_int :: "memory \<Rightarrow> pointer \<Rightarrow> fault + cint" where
  "load_int m p =
     (case p of
        NULL \<Rightarrow> Inl NullDereference
      | Ptr a \<Rightarrow>
          (case lookup m a of
             None \<Rightarrow> Inl InvalidAccess
           | Some ob \<Rightarrow>
               if obj_size ob < sizeof_int then Inl InvalidAccess
               else (case obj_value ob of None \<Rightarrow> Inl Uninitialised | Some v \<Rightarrow> Inr v)))"

definition store_int :: "pointer \<Rightarrow> cint \<Rightarrow> stmt" where
  "store_int p v s =
     (case p of
        NULL \<Rightarrow> Inl NullDereference
      | Ptr a \<Rightarrow>
          (case lookup (mem s) a of
             None \<Rightarrow> Inl InvalidAccess
           | Some ob \<Rightarrow>
               if obj_size ob < sizeof_int then Inl InvalidAccess
               else Inr (s\<lparr>mem := map (\<lambda>ob. if obj_base ob = a then ob\<lparr>obj_value := Some v\<rparr> else ob)
                                      (mem s),
                           trace := trace s @ [EvStore p v]\<rparr>)))"

text \<open>\<^verbatim>\<open>int x = v;\<close> at block scope: a new automatic object at the address the frame gives it.\<close>

definition auto_int :: "addr \<Rightarrow> cint \<Rightarrow> stmt" where
  "auto_int a v s =
     Inr (s\<lparr>mem := \<lparr>obj_base = a, obj_size = sizeof_int, obj_class = Automatic,
                    obj_value = Some v\<rparr> # mem s,
            trace := trace s @ [EvAuto a v]\<rparr>)"

text \<open>
  \<^verbatim>\<open>malloc(n)\<close>: the allocator's answer \<open>r\<close> is the null pointer (nothing is allocated) or
  the base of a new object of \<open>n\<close> units with indeterminate contents.
\<close>

definition malloc :: "nat \<Rightarrow> pointer \<Rightarrow> state \<Rightarrow> state" where
  "malloc n r s =
     (case r of
        NULL \<Rightarrow> s\<lparr>trace := trace s @ [EvMalloc n NULL]\<rparr>
      | Ptr a \<Rightarrow>
          s\<lparr>mem := \<lparr>obj_base = a, obj_size = n, obj_class = Allocated, obj_value = None\<rparr> # mem s,
            trace := trace s @ [EvMalloc n r]\<rparr>)"

text \<open>\<^verbatim>\<open>free(p)\<close>: nothing for the null pointer, else \<open>p\<close> must be a live allocation.\<close>

definition free :: "pointer \<Rightarrow> stmt" where
  "free p s =
     (case p of
        NULL \<Rightarrow> Inr (s\<lparr>trace := trace s @ [EvFree NULL]\<rparr>)
      | Ptr a \<Rightarrow>
          (case lookup (mem s) a of
             None \<Rightarrow> Inl InvalidFree
           | Some ob \<Rightarrow>
               if obj_class ob \<noteq> Allocated then Inl InvalidFree
               else Inr (s\<lparr>mem := filter (\<lambda>ob. obj_base ob \<noteq> a) (mem s),
                           trace := trace s @ [EvFree p]\<rparr>)))"

subsection \<open>Formatted output\<close>

text \<open>
  \<^verbatim>\<open>printf\<close> copies the format and replaces each \<^verbatim>\<open>%p\<close> by the rendering of the next
  argument. The program uses no other conversion; its return value is ignored by the
  source and is not modelled.
\<close>

definition newline :: char where
  "newline = CHR 0x0A"

fun format :: "(pointer \<Rightarrow> string) \<Rightarrow> string \<Rightarrow> pointer list \<Rightarrow> string option" where
  "format f [] args = Some []"
| "format f [c] args = (if c = CHR ''%'' then None else Some [c])"
| "format f (c # d # cs) args =
     (if c = CHR ''%'' then
        (if d = CHR ''p'' then
           (case args of
              [] \<Rightarrow> None
            | a # rest \<Rightarrow> map_option (\<lambda>t. f a @ t) (format f cs rest))
         else None)
      else map_option (\<lambda>t. c # t) (format f (d # cs) args))"

definition printf :: "(pointer \<Rightarrow> string) \<Rightarrow> string \<Rightarrow> pointer list \<Rightarrow> stmt" where
  "printf f fmt args s =
     (case format f fmt args of
        None \<Rightarrow> Inl BadFormat
      | Some txt \<Rightarrow> Inr (s\<lparr>out := out s @ txt, trace := trace s @ [EvPrintf fmt args]\<rparr>))"

subsection \<open>The statements of \<^verbatim>\<open>main\<close>\<close>

text \<open>Reading the local \<^verbatim>\<open>heap_var\<close>, which exists from its declaration on.\<close>

definition with_heap_var :: "(pointer \<Rightarrow> stmt) \<Rightarrow> stmt" where
  "with_heap_var k s = (case heap_var s of None \<Rightarrow> Inl Uninitialised | Some p \<Rightarrow> k p s)"

text \<open>\<^verbatim>\<open>int *heap_var = malloc(n);\<close>\<close>

definition decl_heap_var :: "nat \<Rightarrow> pointer \<Rightarrow> stmt" where
  "decl_heap_var n r s = Inr ((malloc n r s)\<lparr>heap_var := Some r\<rparr>)"

text \<open>
  \<^verbatim>\<open>return v;\<close> in \<^verbatim>\<open>main\<close>: the automatic objects of the frame end their lifetime and
  the process exits with status \<open>v\<close>.
\<close>

definition return_main :: "cint \<Rightarrow> stmt" where
  "return_main v s =
     Inr (s\<lparr>mem := filter (\<lambda>ob. obj_class ob \<noteq> Automatic) (mem s),
            trace := trace s @ [EvReturn v],
            exit_status := Some v\<rparr>)"

text \<open>
  Statements run in sequence. A fault stops the run and keeps the state reached; so does
  a \<^verbatim>\<open>return\<close> that has set the exit status.
\<close>

type_synonym outcome = "(fault \<times> state) + state"

fun exec :: "stmt list \<Rightarrow> state \<Rightarrow> outcome" where
  "exec [] s = Inr s"
| "exec (c # cs) s =
     (if exit_status s \<noteq> None then Inr s
      else (case c s of Inl f \<Rightarrow> Inl (f, s) | Inr s' \<Rightarrow> exec cs s'))"

text \<open>
  Program start: static initialisation has put \<open>g\<close> into \<^verbatim>\<open>global_var\<close>, nothing is
  written yet.
\<close>

definition startup :: "cint \<Rightarrow> world \<Rightarrow> state" where
  "startup g w =
     \<lparr>mem = [\<lparr>obj_base = global_addr w, obj_size = sizeof_int, obj_class = Static,
              obj_value = Some g\<rparr>],
      heap_var = None, out = [], trace = [], exit_status = None\<rparr>"

text \<open>
  The body of \<^verbatim>\<open>main\<close>, statement by statement, with the two literals it assigns as
  parameters (so that a theorem can vary them).
\<close>

definition body :: "cint \<Rightarrow> cint \<Rightarrow> world \<Rightarrow> stmt list" where
  "body v_stack v_heap w =
     [ auto_int (stack_addr w) v_stack,
       decl_heap_var sizeof_int (malloc_result w),
       with_heap_var (\<lambda>p. store_int p v_heap),
       printf (fmt_ptr w) (''Address of stack_var: %p'' @ [newline]) [Ptr (stack_addr w)],
       with_heap_var (\<lambda>p. printf (fmt_ptr w) (''Address of heap_var: %p'' @ [newline]) [p]),
       printf (fmt_ptr w) (''Address of global_var: %p'' @ [newline]) [Ptr (global_addr w)],
       with_heap_var free,
       return_main 0 ]"

definition run_upto :: "nat \<Rightarrow> cint \<Rightarrow> cint \<Rightarrow> cint \<Rightarrow> world \<Rightarrow> outcome" where
  "run_upto k v_stack v_heap v_global w =
     exec (take k (body v_stack v_heap w)) (startup v_global w)"

definition run_with :: "cint \<Rightarrow> cint \<Rightarrow> cint \<Rightarrow> world \<Rightarrow> outcome" where
  "run_with v_stack v_heap v_global w = exec (body v_stack v_heap w) (startup v_global w)"

text \<open>The program as written: the literals are 10, 20 and 42.\<close>

definition main :: "world \<Rightarrow> outcome" where
  "main w = run_with 10 20 42 w"

text \<open>The run of \<^verbatim>\<open>main\<close> cut after its first \<open>k\<close> statements.\<close>

definition at_point :: "nat \<Rightarrow> world \<Rightarrow> outcome" where
  "at_point k w = run_upto k 10 20 42 w"

subsection \<open>Observations on a run\<close>

definition state_of :: "outcome \<Rightarrow> state" where
  "state_of r = (case r of Inl (f, s) \<Rightarrow> s | Inr s \<Rightarrow> s)"

definition fault_of :: "outcome \<Rightarrow> fault option" where
  "fault_of r = (case r of Inl (f, s) \<Rightarrow> Some f | Inr s \<Rightarrow> None)"

text \<open>The pointers handed to \<^verbatim>\<open>printf\<close>, in the order of the calls.\<close>

definition reported :: "event list \<Rightarrow> pointer list" where
  "reported t = concat (map (\<lambda>e. case e of EvPrintf fmt args \<Rightarrow> args | _ \<Rightarrow> []) t)"

text \<open>The blocks obtained from \<^verbatim>\<open>malloc\<close> (a null result allocates nothing).\<close>

definition allocations :: "event list \<Rightarrow> pointer list" where
  "allocations t =
     concat (map (\<lambda>e. case e of EvMalloc n r \<Rightarrow> (if r = NULL then [] else [r]) | _ \<Rightarrow> []) t)"

text \<open>The pointers passed to \<^verbatim>\<open>free\<close>.\<close>

definition releases :: "event list \<Rightarrow> pointer list" where
  "releases t = concat (map (\<lambda>e. case e of EvFree p \<Rightarrow> [p] | _ \<Rightarrow> []) t)"

text \<open>An operation uses \<open>p\<close> when it stores through it or prints it.\<close>

definition uses :: "pointer \<Rightarrow> event \<Rightarrow> bool" where
  "uses p e = (case e of EvStore q v \<Rightarrow> q = p | EvPrintf fmt args \<Rightarrow> p \<in> set args | _ \<Rightarrow> False)"

text \<open>
  The shape of an output line, without its newline, and the text cut into lines: a
  newline ends a line, and text after the last newline is a line of its own.
\<close>

definition address_line :: "world \<Rightarrow> string \<Rightarrow> pointer \<Rightarrow> string" where
  "address_line w name p = ''Address of '' @ name @ '': '' @ fmt_ptr w p"

fun split_lines :: "string \<Rightarrow> string \<Rightarrow> string list" where
  "split_lines cur [] = (if cur = [] then [] else [cur])"
| "split_lines cur (c # cs) =
     (if c = newline then cur # split_lines [] cs else split_lines (cur @ [c]) cs)"

definition lines_of :: "string \<Rightarrow> string list" where
  "lines_of txt = split_lines [] txt"

text \<open>
  The static variable is intact in a state when it still holds \<open>g\<close>, no store so far has
  gone through its address, the local pointer does not point at it, and it is the static
  object that lives at its address.
\<close>

definition writes_to :: "pointer \<Rightarrow> event \<Rightarrow> bool" where
  "writes_to p e = (case e of EvStore q v \<Rightarrow> q = p | _ \<Rightarrow> False)"

definition global_intact :: "cint \<Rightarrow> world \<Rightarrow> state \<Rightarrow> bool" where
  "global_intact g w s =
     (load_int (mem s) (Ptr (global_addr w)) = Inr g \<and>
      list_all (\<lambda>ob. obj_base ob = global_addr w \<longrightarrow> obj_class ob = Static) (mem s) \<and>
      heap_var s \<noteq> Some (Ptr (global_addr w)) \<and>
      list_all (\<lambda>e. \<not> writes_to (Ptr (global_addr w)) e) (trace s))"

text \<open>
  The live objects of a memory have storage of their own when none sits at the null
  address and no two share an address unit. A run conforms to the object model of C when
  this holds in the state reached after each of its statements (and at entry).
\<close>

definition live_disjoint :: "memory \<Rightarrow> bool" where
  "live_disjoint m = disjoint_ranges (map (\<lambda>ob. (obj_base ob, obj_size ob)) m)"

definition conforming :: "world \<Rightarrow> bool" where
  "conforming w =
     list_all (\<lambda>k. live_disjoint (mem (state_of (at_point k w)))) [0, 1, 2, 3, 4, 5, 6, 7, 8]"

text \<open>
  Reading the addresses back from standard output: of each line, the text that follows
  the first colon and the blank after it.
\<close>

definition address_of_line :: "string \<Rightarrow> string" where
  "address_of_line l = drop 2 (dropWhile (\<lambda>c. c \<noteq> CHR '':'') l)"

definition printed_addresses :: "string \<Rightarrow> string list" where
  "printed_addresses txt = map address_of_line (lines_of txt)"

text \<open>
  The three format strings of \<^verbatim>\<open>main\<close> in the order of the calls, as one format with
  three conversions; and a world whose \<^verbatim>\<open>%p\<close> renders every pointer as the same text.
\<close>

definition report_format :: string where
  "report_format =
     ''Address of stack_var: %p'' @ [newline] @
     ''Address of heap_var: %p'' @ [newline] @
     ''Address of global_var: %p'' @ [newline]"

definition masked :: "string \<Rightarrow> world \<Rightarrow> world" where
  "masked m w = w\<lparr>fmt_ptr := \<lambda>p. m\<rparr>"

subsection \<open>Two sample implementations\<close>

text \<open>
  A rendering of \<^verbatim>\<open>%p\<close> in the style of the GNU C library (twelve hexadecimal digits
  here), a run of a typical 64-bit system, and the same run with an allocator that has
  no memory left.
\<close>

definition hex_digit :: "nat \<Rightarrow> char" where
  "hex_digit d = ''0123456789abcdef'' ! d"

fun hex_digits :: "nat \<Rightarrow> nat \<Rightarrow> string" where
  "hex_digits 0 n = []"
| "hex_digits (Suc k) n = hex_digits k (n div 16) @ [hex_digit (n mod 16)]"

definition sample_fmt :: "pointer \<Rightarrow> string" where
  "sample_fmt p = (case p of NULL \<Rightarrow> ''(nil)'' | Ptr a \<Rightarrow> ''0x'' @ hex_digits 12 a)"

definition sample_world :: world where
  "sample_world =
     \<lparr>argv = [''./stack_heap''], environ = [(''HOME'', ''/root'')], stdin = [],
      global_addr = 0x404028, stack_addr = 0x7ffd5c3a6b4c, malloc_result = Ptr 0x1b2a2a0,
      fmt_ptr = sample_fmt\<rparr>"

definition null_world :: world where
  "null_world = sample_world\<lparr>malloc_result := NULL\<rparr>"

text \<open>
  A rendering without leading zeros that tells any two pointers apart, and a second run
  that was started differently and got other addresses.
\<close>

function hex_of :: "nat \<Rightarrow> string" where
  "hex_of n = (if n < 16 then [hex_digit n] else hex_of (n div 16) @ [hex_digit (n mod 16)])"
  by pat_completeness auto
termination
  by (relation "measure (\<lambda>n. n)") auto

declare hex_of.simps [simp del]

definition glibc_fmt :: "pointer \<Rightarrow> string" where
  "glibc_fmt p = (case p of NULL \<Rightarrow> ''(nil)'' | Ptr a \<Rightarrow> ''0x'' @ hex_of a)"

definition glibc_world :: world where
  "glibc_world = sample_world\<lparr>fmt_ptr := glibc_fmt\<rparr>"

definition other_world :: world where
  "other_world =
     \<lparr>argv = [''./a.out'', ''--verbose''], environ = [], stdin = ''42'',
      global_addr = 0x601040, stack_addr = 0x7ffe11aa0c2c, malloc_result = Ptr 0x55d0c0,
      fmt_ptr = glibc_fmt\<rparr>"

section \<open>Properties\<close>

subsection \<open>Auxiliary facts\<close>

lemmas stmt_defs = auto_int_def decl_heap_var_def malloc_def with_heap_var_def store_int_def
  lookup_def printf_def free_def return_main_def startup_def sizeof_int_def newline_def

lemmas run_defs = main_def at_point_def run_with_def run_upto_def body_def

lemma placement_distinct:
  assumes "placement_ok w"
  shows "global_addr w \<noteq> stack_addr w" "0 < global_addr w" "0 < stack_addr w"
    "malloc_result w = Ptr h \<Longrightarrow> h \<noteq> global_addr w \<and> h \<noteq> stack_addr w \<and> 0 < h"
  using assms by (auto simp: placement_ok_def sizeof_int_def)

lemma split_lines_line:
  "newline \<notin> set l \<Longrightarrow> split_lines cur (l @ newline # rest) = (cur @ l) # split_lines [] rest"
  by (induction l arbitrary: cur) auto

lemma lines_of_three:
  assumes "newline \<notin> set a" "newline \<notin> set b" "newline \<notin> set c"
  shows "lines_of (a @ newline # b @ newline # c @ [newline]) = [a, b, c]"
  using assms by (simp add: lines_of_def split_lines_line)

lemma address_line_no_newline:
  "newline \<notin> set (fmt_ptr w p) \<Longrightarrow> newline \<notin> set name \<Longrightarrow> newline \<notin> set (address_line w name p)"
  by (simp add: address_line_def newline_def)

lemma main_out:
  "malloc_result w = Ptr h \<Longrightarrow>
   \<exists>s. main w = Inr s \<and>
     out s = address_line w ''stack_var'' (Ptr (stack_addr w)) @ newline #
             address_line w ''heap_var'' (Ptr h) @ newline #
             address_line w ''global_var'' (Ptr (global_addr w)) @ [newline]"
  by (simp add: run_defs stmt_defs address_line_def)

lemma hex_digits_chars: "set (hex_digits k n) \<subseteq> set ''0123456789abcdef''"
proof (induction k arbitrary: n)
  case 0
  show ?case by simp
next
  case (Suc k)
  have "n mod 16 < length ''0123456789abcdef''" by simp
  then have "hex_digit (n mod 16) \<in> set ''0123456789abcdef''"
    unfolding hex_digit_def by (rule nth_mem)
  with Suc show ?case by simp
qed

lemma sample_fmt_no_newline: "newline \<notin> set (sample_fmt p)"
proof (cases p)
  case NULL
  then show ?thesis by (simp add: sample_fmt_def newline_def)
next
  case (Ptr a)
  have "newline \<notin> set ''0123456789abcdef''" by (simp add: newline_def)
  with hex_digits_chars [of 12 a] have "newline \<notin> set (hex_digits 12 a)" by blast
  with Ptr show ?thesis by (simp add: sample_fmt_def newline_def)
qed

lemma hex_digits_numeral:
  "hex_digits (numeral k) n = hex_digits (pred_numeral k) (n div 16) @ [hex_digit (n mod 16)]"
  by (simp only: numeral_eq_Suc [of k] hex_digits.simps)

lemma sample_world_fields:
  "malloc_result sample_world = Ptr 0x1b2a2a0"
  "stack_addr sample_world = 0x7ffd5c3a6b4c"
  "global_addr sample_world = 0x404028"
  "fmt_ptr sample_world = sample_fmt"
  by (simp_all add: sample_world_def)

lemma sample_placement: "placement_ok sample_world" "placement_ok null_world"
  by (simp_all add: placement_ok_def sample_world_def null_world_def sizeof_int_def)

lemma sample_malloc: "malloc_result sample_world = Ptr 0x1b2a2a0"
  by (simp add: sample_world_def)

lemma main_trace:
  assumes "malloc_result w = Ptr h"
  shows "\<exists>s. main w = Inr s \<and>
     trace s =
       [EvAuto (stack_addr w) 10, EvMalloc sizeof_int (Ptr h), EvStore (Ptr h) 20,
        EvPrintf (''Address of stack_var: %p'' @ [newline]) [Ptr (stack_addr w)],
        EvPrintf (''Address of heap_var: %p'' @ [newline]) [Ptr h],
        EvPrintf (''Address of global_var: %p'' @ [newline]) [Ptr (global_addr w)],
        EvFree (Ptr h), EvReturn 0] \<and>
     list_all (\<lambda>ob. obj_class ob \<noteq> Allocated) (mem s) \<and>
     exit_status s = Some 0"
  using assms by (simp add: run_defs stmt_defs)

lemma at_point_values:
  assumes "stack_addr w \<noteq> global_addr w" "h \<noteq> global_addr w" "h \<noteq> stack_addr w"
    and "malloc_result w = Ptr h" and "k = 3 \<or> k = 4 \<or> k = 5 \<or> k = 6"
  shows "\<exists>s. at_point k w = Inr s \<and> heap_var s = Some (Ptr h) \<and>
           load_int (mem s) (Ptr (stack_addr w)) = Inr 10 \<and>
           load_int (mem s) (Ptr h) = Inr 20 \<and>
           load_int (mem s) (Ptr (global_addr w)) = Inr 42"
  using assms by (auto simp add: run_defs stmt_defs load_int_def)

text \<open>
  Invariants of a run: a property that every statement of a list preserves holds in the
  last state the run reaches, whether the run finishes, returns early or stops at a fault.
\<close>

lemma exec_invariant:
  assumes step: "\<And>c s s'. c \<in> set cs \<Longrightarrow> I s \<Longrightarrow> c s = Inr s' \<Longrightarrow> I s'"
    and init: "I s"
  shows "I (state_of (exec cs s))"
  using assms
proof (induction cs arbitrary: s)
  case Nil
  then show ?case by (simp add: state_of_def)
next
  case (Cons c cs)
  show ?case
  proof (cases "exit_status s \<noteq> None")
    case True
    with Cons.prems show ?thesis by (simp add: state_of_def)
  next
    case running: False
    show ?thesis
    proof (cases "c s")
      case (Inl f)
      with running Cons.prems show ?thesis by (simp add: state_of_def)
    next
      case (Inr s')
      have "I s'" using Cons.prems(1) [of c s s'] Cons.prems(2) Inr by simp
      moreover have "\<And>d t t'. d \<in> set cs \<Longrightarrow> I t \<Longrightarrow> d t = Inr t' \<Longrightarrow> I t'"
        using Cons.prems(1) by (meson list.set_intros(2))
      ultimately have "I (state_of (exec cs s'))" by (rule Cons.IH [rotated])
      with running Inr show ?thesis by simp
    qed
  qed
qed

lemma lookup_filter_keep:
  "list_all (\<lambda>ob. obj_base ob = g \<longrightarrow> P ob) m \<Longrightarrow> lookup (filter P m) g = lookup m g"
  by (induction m) (auto simp: lookup_def)

lemma lookup_map_other:
  assumes "\<And>ob. obj_base ob = g \<Longrightarrow> f ob = ob" "\<And>ob. obj_base (f ob) = obj_base ob"
  shows "lookup (map f m) g = lookup m g"
  using assms by (induction m) (auto simp: lookup_def)

lemma list_all_filter_keep: "list_all P m \<Longrightarrow> list_all P (filter Q m)"
  by (induction m) auto

lemma intact_auto_int:
  "a \<noteq> global_addr w \<Longrightarrow> global_intact g w s \<Longrightarrow> auto_int a v s = Inr s' \<Longrightarrow> global_intact g w s'"
  by (auto simp: global_intact_def auto_int_def load_int_def lookup_def writes_to_def)

lemma intact_decl_heap_var:
  "r \<noteq> Ptr (global_addr w) \<Longrightarrow> global_intact g w s \<Longrightarrow> decl_heap_var n r s = Inr s' \<Longrightarrow>
   global_intact g w s'"
  by (cases r) (auto simp: global_intact_def decl_heap_var_def malloc_def load_int_def lookup_def writes_to_def)

lemma intact_store:
  assumes "global_intact g w s" "with_heap_var (\<lambda>p. store_int p v) s = Inr s'"
  shows "global_intact g w s'"
proof -
  from assms(2) obtain a where hv: "heap_var s = Some (Ptr a)"
    and s': "s' = s\<lparr>mem := map (\<lambda>ob. if obj_base ob = a then ob\<lparr>obj_value := Some v\<rparr> else ob) (mem s),
                     trace := trace s @ [EvStore (Ptr a) v]\<rparr>"
    by (auto simp: with_heap_var_def store_int_def split: option.splits pointer.splits if_splits)
  from assms(1) hv have ne: "a \<noteq> global_addr w" by (auto simp: global_intact_def)
  have "lookup (mem s') (global_addr w) = lookup (mem s) (global_addr w)"
    unfolding s' using ne by (simp add: lookup_map_other)
  moreover have "list_all (\<lambda>ob. obj_base ob = global_addr w \<longrightarrow> obj_class ob = Static) (mem s')"
    using assms(1) unfolding s' global_intact_def by (auto simp: list_all_iff)
  ultimately show ?thesis
    using assms(1) ne hv unfolding global_intact_def load_int_def
    by (simp add: s' writes_to_def)
qed

lemma intact_printf:
  "global_intact g w s \<Longrightarrow> printf f fmt args s = Inr s' \<Longrightarrow> global_intact g w s'"
  by (auto simp: global_intact_def printf_def writes_to_def split: option.splits)

lemma intact_printf_heap_var:
  "global_intact g w s \<Longrightarrow> with_heap_var (\<lambda>p. printf f fmt [p]) s = Inr s' \<Longrightarrow> global_intact g w s'"
  by (auto simp: with_heap_var_def split: option.splits dest: intact_printf)

lemma intact_free:
  assumes "global_intact g w s" "with_heap_var free s = Inr s'"
  shows "global_intact g w s'"
proof (cases "heap_var s")
  case None
  with assms(2) show ?thesis by (simp add: with_heap_var_def)
next
  case (Some p)
  show ?thesis
  proof (cases p)
    case NULL
    with Some assms show ?thesis
      by (auto simp: with_heap_var_def free_def global_intact_def writes_to_def)
  next
    case (Ptr a)
    with Some assms(1) have ne: "a \<noteq> global_addr w" by (auto simp: global_intact_def)
    from Some Ptr assms(2) have s': "s' = s\<lparr>mem := filter (\<lambda>ob. obj_base ob \<noteq> a) (mem s),
                     trace := trace s @ [EvFree (Ptr a)]\<rparr>"
      by (auto simp: with_heap_var_def free_def split: option.splits if_splits)
    have "lookup (mem s') (global_addr w) = lookup (mem s) (global_addr w)"
      unfolding s' using ne by (simp add: lookup_filter_keep list_all_iff)
    then show ?thesis
      using assms(1) Some unfolding global_intact_def load_int_def
      by (simp add: s' writes_to_def list_all_filter_keep)
  qed
qed

lemma intact_return:
  assumes "global_intact g w s" "return_main v s = Inr s'"
  shows "global_intact g w s'"
proof -
  from assms(2) have s': "s' = s\<lparr>mem := filter (\<lambda>ob. obj_class ob \<noteq> Automatic) (mem s),
            trace := trace s @ [EvReturn v], exit_status := Some v\<rparr>"
    by (simp add: return_main_def)
  have "list_all (\<lambda>ob. obj_base ob = global_addr w \<longrightarrow> obj_class ob \<noteq> Automatic) (mem s)"
    using assms(1) by (auto simp: global_intact_def list_all_iff)
  then have "lookup (mem s') (global_addr w) = lookup (mem s) (global_addr w)"
    unfolding s' by (simp add: lookup_filter_keep)
  then show ?thesis
    using assms(1) unfolding global_intact_def load_int_def
    by (simp add: s' writes_to_def list_all_filter_keep)
qed

lemma intact_startup: "global_intact g w (startup g w)"
  by (simp add: global_intact_def startup_def load_int_def lookup_def)

lemma body_preserves_intact:
  assumes ok: "placement_ok w" and c: "c \<in> set (body a b w)"
    and I: "global_intact g w s" and run: "c s = Inr s'"
  shows "global_intact g w s'"
proof -
  have ne: "stack_addr w \<noteq> global_addr w" "malloc_result w \<noteq> Ptr (global_addr w)"
    using placement_distinct [OF ok] by auto
  from c consider
      "c = auto_int (stack_addr w) a"
    | "c = decl_heap_var sizeof_int (malloc_result w)"
    | "c = with_heap_var (\<lambda>p. store_int p b)"
    | fmt args where "c = printf (fmt_ptr w) fmt args"
    | fmt where "c = with_heap_var (\<lambda>p. printf (fmt_ptr w) fmt [p])"
    | "c = with_heap_var free"
    | "c = return_main 0"
    unfolding body_def by auto
  then show ?thesis
  proof cases
    case 1 with I run ne show ?thesis by (auto dest: intact_auto_int)
  next
    case 2 with I run ne show ?thesis by (auto dest: intact_decl_heap_var)
  next
    case 3 with I run show ?thesis by (auto dest: intact_store)
  next
    case 4 with I run show ?thesis by (auto dest: intact_printf)
  next
    case 5 with I run show ?thesis by (auto dest: intact_printf_heap_var)
  next
    case 6 with I run show ?thesis by (auto dest: intact_free)
  next
    case 7 with I run show ?thesis by (auto dest: intact_return)
  qed
qed

lemma run_upto_intact:
  assumes "placement_ok w"
  shows "global_intact g w (state_of (run_upto k a b g w))"
  unfolding run_upto_def
proof (rule exec_invariant)
  show "global_intact g w (startup g w)" by (rule intact_startup)
next
  fix c s s'
  assume "c \<in> set (take k (body a b w))" "global_intact g w s" "c s = Inr s'"
  then show "global_intact g w s'"
    using body_preserves_intact [OF assms] by (blast dest: in_set_takeD)
qed

lemma at_point_all: "8 \<le> k \<Longrightarrow> at_point k w = main w"
  by (simp add: at_point_def main_def run_upto_def run_with_def body_def)

text \<open>
  The second rendering: its digits, that it tells pointers apart, and that it stays on
  one line.
\<close>

lemma hex_of_numeral:
  "hex_of (numeral k) =
     (if numeral k < (16::nat) then [hex_digit (numeral k)]
      else hex_of (numeral k div 16) @ [hex_digit (numeral k mod 16)])"
  by (rule hex_of.simps)

lemma hex_of_small: "n < 16 \<Longrightarrow> hex_of n = [hex_digit n]"
  by (subst hex_of.simps) simp

lemma hex_digit_inj: "a < 16 \<Longrightarrow> b < 16 \<Longrightarrow> hex_digit a = hex_digit b \<Longrightarrow> a = b"
proof -
  assume "a < 16" "b < 16" and eq: "hex_digit a = hex_digit b"
  have d: "distinct ''0123456789abcdef''" by simp
  have "a < length ''0123456789abcdef''" "b < length ''0123456789abcdef''"
    using \<open>a < 16\<close> \<open>b < 16\<close> by simp_all
  with d eq show "a = b" unfolding hex_digit_def by (simp only: nth_eq_iff_index_eq)
qed

lemma hex_of_nonempty: "hex_of n \<noteq> []"
  by (subst hex_of.simps) simp

lemma hex_of_last: "last (hex_of n) = hex_digit (n mod 16)"
  by (subst hex_of.simps) simp

lemma hex_of_butlast: "butlast (hex_of n) = (if n < 16 then [] else hex_of (n div 16))"
  by (subst hex_of.simps) simp

lemma hex_of_inj: "hex_of m = hex_of n \<Longrightarrow> m = n"
proof (induction m arbitrary: n rule: hex_of.induct)
  case (1 m)
  from "1.prems" have l: "hex_digit (m mod 16) = hex_digit (n mod 16)"
    by (metis hex_of_last)
  then have md: "m mod 16 = n mod 16" by (intro hex_digit_inj) simp_all
  from "1.prems" have b: "butlast (hex_of m) = butlast (hex_of n)" by simp
  show ?case
  proof (cases "m < 16")
    case True
    with b have "n < 16" using hex_of_nonempty [of "n div 16"]
      by (auto simp: hex_of_butlast split: if_splits)
    with True md show ?thesis by simp
  next
    case False
    with b have n: "\<not> n < 16" and "hex_of (m div 16) = hex_of (n div 16)"
      using hex_of_nonempty [of "m div 16"] by (auto simp: hex_of_butlast split: if_splits)
    with False "1.IH" have "m div 16 = n div 16" by blast
    with md show ?thesis by (metis div_mult_mod_eq)
  qed
qed

lemma glibc_fmt_inj: "inj glibc_fmt"
proof (rule injI)
  fix p q assume "glibc_fmt p = glibc_fmt q"
  then show "p = q"
    by (cases p; cases q) (auto simp: glibc_fmt_def dest: hex_of_inj)
qed

lemma hex_of_chars: "set (hex_of n) \<subseteq> set ''0123456789abcdef''"
proof (induction n rule: hex_of.induct)
  case (1 n)
  have "n mod 16 < length ''0123456789abcdef''" by simp
  then have m: "hex_digit (n mod 16) \<in> set ''0123456789abcdef''"
    unfolding hex_digit_def by (rule nth_mem)
  show ?case
  proof (cases "n < 16")
    case True
    with m show ?thesis by (subst hex_of.simps) simp
  next
    case False
    with "1.IH" m show ?thesis by (subst hex_of.simps) simp
  qed
qed

lemma glibc_fmt_no_newline: "newline \<notin> set (glibc_fmt p)"
proof (cases p)
  case NULL
  then show ?thesis by (simp add: glibc_fmt_def newline_def)
next
  case (Ptr a)
  have "newline \<notin> set ''0123456789abcdef''" by (simp add: newline_def)
  with hex_of_chars [of a] have "newline \<notin> set (hex_of a)" by blast
  with Ptr show ?thesis by (simp add: glibc_fmt_def newline_def)
qed

text \<open>
  What a run prints and where its objects live.
\<close>

lemma address_of_address_line:
  "address_of_line (address_line w ''stack_var'' p) = fmt_ptr w p"
  "address_of_line (address_line w ''heap_var'' p) = fmt_ptr w p"
  "address_of_line (address_line w ''global_var'' p) = fmt_ptr w p"
  by (simp_all add: address_of_line_def address_line_def)

lemma conforming_live:
  assumes "conforming w" "malloc_result w = Ptr h"
  shows "distinct [Ptr (stack_addr w), Ptr h, Ptr (global_addr w)]"
proof -
  from assms(1) have "live_disjoint (mem (state_of (at_point 6 w)))"
    by (simp add: conforming_def)
  with assms(2) show ?thesis
    by (auto simp add: run_defs stmt_defs state_of_def live_disjoint_def split: if_splits)
qed

lemma main_null_out:
  "malloc_result w = NULL \<Longrightarrow>
   out (state_of (main w)) = [] \<and> reported (trace (state_of (main w))) = []"
  by (simp add: run_defs stmt_defs state_of_def reported_def)

lemma main_printed:
  assumes "malloc_result w = Ptr h" "\<forall>p. newline \<notin> set (fmt_ptr w p)"
  shows "printed_addresses (out (state_of (main w))) =
           [fmt_ptr w (Ptr (stack_addr w)), fmt_ptr w (Ptr h), fmt_ptr w (Ptr (global_addr w))]"
proof -
  from main_out [OF assms(1)] obtain s where run: "main w = Inr s"
    and shown: "out s = address_line w ''stack_var'' (Ptr (stack_addr w)) @ newline #
             address_line w ''heap_var'' (Ptr h) @ newline #
             address_line w ''global_var'' (Ptr (global_addr w)) @ [newline]"
    by blast
  have a: "newline \<notin> set (address_line w ''stack_var'' (Ptr (stack_addr w)))"
    by (rule address_line_no_newline) (simp_all add: assms(2), simp add: newline_def)
  have b: "newline \<notin> set (address_line w ''heap_var'' (Ptr h))"
    by (rule address_line_no_newline) (simp_all add: assms(2), simp add: newline_def)
  have c: "newline \<notin> set (address_line w ''global_var'' (Ptr (global_addr w)))"
    by (rule address_line_no_newline) (simp_all add: assms(2), simp add: newline_def)
  have "lines_of (out s) =
          [address_line w ''stack_var'' (Ptr (stack_addr w)),
           address_line w ''heap_var'' (Ptr h),
           address_line w ''global_var'' (Ptr (global_addr w))]"
    unfolding shown by (rule lines_of_three [OF a b c])
  with run show ?thesis
    by (simp add: printed_addresses_def state_of_def address_of_address_line)
qed

lemma glibc_world_fields:
  "malloc_result glibc_world = Ptr 0x1b2a2a0"
  "stack_addr glibc_world = 0x7ffd5c3a6b4c"
  "global_addr glibc_world = 0x404028"
  "fmt_ptr glibc_world = glibc_fmt"
  by (simp_all add: glibc_world_def sample_world_def)

lemma glibc_conforming: "conforming glibc_world"
  by (simp add: conforming_def live_disjoint_def run_defs stmt_defs state_of_def
      glibc_world_fields)

lemma main_same_choices:
  assumes "global_addr w' = global_addr w" "stack_addr w' = stack_addr w"
    "malloc_result w' = malloc_result w" "fmt_ptr w' = fmt_ptr w"
  shows "main w' = main w"
  using assms by (simp add: run_defs startup_def)

lemma main_is_report_format:
  assumes "malloc_result w = Ptr h"
  shows "format (fmt_ptr w) report_format [Ptr (stack_addr w), malloc_result w, Ptr (global_addr w)] =
           Some (out (state_of (main w))) \<and>
         fault_of (main w) = None \<and> exit_status (state_of (main w)) = Some 0"
  using assms by (simp add: run_defs stmt_defs state_of_def fault_of_def report_format_def)

lemma main_masked:
  assumes "malloc_result w = Ptr h"
  shows "format (\<lambda>p. m) report_format [a, b, c] = Some (out (state_of (main (masked m w))))"
  using assms by (simp add: run_defs stmt_defs state_of_def masked_def report_format_def)

lemma other_world_fields:
  "malloc_result other_world = Ptr 0x55d0c0"
  "stack_addr other_world = 0x7ffe11aa0c2c"
  "global_addr other_world = 0x601040"
  "fmt_ptr other_world = glibc_fmt"
  by (simp_all add: other_world_def)

subsection \<open>Output\<close>

text \<open>
  Claim C1. In every run in which the allocation succeeds, \<^verbatim>\<open>main\<close> returns and standard
  output holds exactly the three newline-terminated texts
  \<^verbatim>\<open>Address of stack_var: <p>\<close>, \<^verbatim>\<open>Address of heap_var: <p>\<close> and
  \<^verbatim>\<open>Address of global_var: <p>\<close>, in this order, where \<^verbatim>\<open><p>\<close> is the \<^verbatim>\<open>%p\<close>
  rendering of the address of the automatic variable, of the allocated block and of the
  static variable. When no rendering contains a newline, these are exactly three lines.
\<close>

theorem three_address_lines:
  assumes "malloc_result w = Ptr h"
  shows "\<exists>s. main w = Inr s \<and>
     out s = address_line w ''stack_var'' (Ptr (stack_addr w)) @ newline #
             address_line w ''heap_var'' (Ptr h) @ newline #
             address_line w ''global_var'' (Ptr (global_addr w)) @ [newline] \<and>
     ((\<forall>p. newline \<notin> set (fmt_ptr w p)) \<longrightarrow>
        lines_of (out s) =
          [address_line w ''stack_var'' (Ptr (stack_addr w)),
           address_line w ''heap_var'' (Ptr h),
           address_line w ''global_var'' (Ptr (global_addr w))])"
proof -
  from main_out [OF assms] obtain s where run: "main w = Inr s"
    and shown: "out s = address_line w ''stack_var'' (Ptr (stack_addr w)) @ newline #
             address_line w ''heap_var'' (Ptr h) @ newline #
             address_line w ''global_var'' (Ptr (global_addr w)) @ [newline]"
    by blast
  have "lines_of (out s) =
          [address_line w ''stack_var'' (Ptr (stack_addr w)),
           address_line w ''heap_var'' (Ptr h),
           address_line w ''global_var'' (Ptr (global_addr w))]"
    if fmt: "\<forall>p. newline \<notin> set (fmt_ptr w p)"
  proof -
    have a: "newline \<notin> set (address_line w ''stack_var'' (Ptr (stack_addr w)))"
      by (rule address_line_no_newline) (simp_all add: fmt, simp add: newline_def)
    have b: "newline \<notin> set (address_line w ''heap_var'' (Ptr h))"
      by (rule address_line_no_newline) (simp_all add: fmt, simp add: newline_def)
    have c: "newline \<notin> set (address_line w ''global_var'' (Ptr (global_addr w)))"
      by (rule address_line_no_newline) (simp_all add: fmt, simp add: newline_def)
    show ?thesis
      unfolding shown by (rule lines_of_three [OF a b c])
  qed
  with run shown show ?thesis by blast
qed

theorem three_address_lines_witness:
  "malloc_result sample_world = Ptr 0x1b2a2a0 \<and>
   (\<forall>p. newline \<notin> set (fmt_ptr sample_world p)) \<and>
   (\<exists>s. main sample_world = Inr s \<and>
      lines_of (out s) =
        [''Address of stack_var: 0x7ffd5c3a6b4c'',
         ''Address of heap_var: 0x000001b2a2a0'',
         ''Address of global_var: 0x000000404028''])"
proof -
  have h: "malloc_result sample_world = Ptr 0x1b2a2a0" by (simp add: sample_world_def)
  have nl: "\<forall>p. newline \<notin> set (fmt_ptr sample_world p)"
    by (simp add: sample_world_fields sample_fmt_no_newline)
  have hd: "hex_digits 12 0x7ffd5c3a6b4c = ''7ffd5c3a6b4c''"
    "hex_digits 12 0x1b2a2a0 = ''000001b2a2a0''"
    "hex_digits 12 0x404028 = ''000000404028''"
    by (simp_all add: hex_digits_numeral hex_digit_def)
  have rendered:
    "address_line sample_world ''stack_var'' (Ptr (stack_addr sample_world)) =
       ''Address of stack_var: 0x7ffd5c3a6b4c''"
    "address_line sample_world ''heap_var'' (Ptr 0x1b2a2a0) =
       ''Address of heap_var: 0x000001b2a2a0''"
    "address_line sample_world ''global_var'' (Ptr (global_addr sample_world)) =
       ''Address of global_var: 0x000000404028''"
    by (simp_all add: address_line_def sample_world_fields sample_fmt_def hd)
  from three_address_lines [OF h] nl obtain s where "main sample_world = Inr s"
    and "lines_of (out s) =
          [address_line sample_world ''stack_var'' (Ptr (stack_addr sample_world)),
           address_line sample_world ''heap_var'' (Ptr 0x1b2a2a0),
           address_line sample_world ''global_var'' (Ptr (global_addr sample_world))]"
    by blast
  with h nl show ?thesis
    unfolding rendered by blast
qed

subsection \<open>Program points\<close>

text \<open>
  The statements of \<^verbatim>\<open>main\<close> are numbered 1 to 8 in source order: the declaration of
  \<^verbatim>\<open>stack_var\<close> (1), the declaration of \<^verbatim>\<open>heap_var\<close> with the call of \<^verbatim>\<open>malloc\<close>
  (2), the store \<^verbatim>\<open>*heap_var = 20\<close> (3), the three calls of \<^verbatim>\<open>printf\<close> (4, 5, 6),
  the call of \<^verbatim>\<open>free\<close> (7) and \<^verbatim>\<open>return 0\<close> (8). \<open>at_point k w\<close> is the run cut after
  statement \<open>k\<close>; \<open>at_point 0 w\<close> is the state at entry.
\<close>

subsection \<open>Values\<close>

text \<open>
  Claim C2. After the store through \<^verbatim>\<open>heap_var\<close> and before the call of \<^verbatim>\<open>free\<close>
  (program points 3 to 6), in a run whose allocation succeeded, reading \<^verbatim>\<open>stack_var\<close>
  gives 10, reading the allocated slot through \<^verbatim>\<open>heap_var\<close> gives 20, and reading
  \<^verbatim>\<open>global_var\<close> gives 42.
\<close>

theorem values_in_place:
  assumes "placement_ok w" "malloc_result w = Ptr h" "3 \<le> k" "k \<le> 6"
  shows "\<exists>s. at_point k w = Inr s \<and> heap_var s = Some (Ptr h) \<and>
           load_int (mem s) (Ptr (stack_addr w)) = Inr 10 \<and>
           load_int (mem s) (Ptr h) = Inr 20 \<and>
           load_int (mem s) (Ptr (global_addr w)) = Inr 42"
proof -
  from assms(3,4) have "k = 3 \<or> k = 4 \<or> k = 5 \<or> k = 6" by arith
  moreover from placement_distinct [OF assms(1)] assms(2)
  have "stack_addr w \<noteq> global_addr w" "h \<noteq> global_addr w" "h \<noteq> stack_addr w" by auto
  ultimately show ?thesis using assms(2) by (intro at_point_values)
qed

theorem values_in_place_witness:
  "placement_ok sample_world \<and> malloc_result sample_world = Ptr 0x1b2a2a0 \<and>
   (3::nat) \<le> 4 \<and> (4::nat) \<le> 6 \<and>
   (\<exists>s. at_point 4 sample_world = Inr s \<and> heap_var s = Some (Ptr 0x1b2a2a0) \<and>
        load_int (mem s) (Ptr 0x7ffd5c3a6b4c) = Inr 10 \<and>
        load_int (mem s) (Ptr 0x1b2a2a0) = Inr 20 \<and>
        load_int (mem s) (Ptr 0x404028) = Inr 42)"
proof -
  have k: "(3::nat) \<le> 4" "(4::nat) \<le> 6" by simp_all
  from values_in_place [OF sample_placement(1) sample_malloc k]
  show ?thesis
    using sample_placement(1) sample_malloc by (simp add: sample_world_fields)
qed

subsection \<open>Allocation and release\<close>

text \<open>
  Claim C3, for the runs in which the allocation succeeds. The run obtains exactly one
  block from \<^verbatim>\<open>malloc\<close> and passes exactly that block to \<^verbatim>\<open>free\<close>, once. The block
  is used before the release; from the release on, the only operation left is the return
  from \<^verbatim>\<open>main\<close>, so the release comes after the last use and before the exit, and no
  allocated object is left at the exit.
\<close>

theorem one_allocation_one_release:
  assumes "malloc_result w = Ptr h"
  shows "\<exists>s. main w = Inr s \<and>
     allocations (trace s) = [Ptr h] \<and>
     releases (trace s) = [Ptr h] \<and>
     filter (uses (Ptr h)) (takeWhile (\<lambda>e. e \<noteq> EvFree (Ptr h)) (trace s)) \<noteq> [] \<and>
     dropWhile (\<lambda>e. e \<noteq> EvFree (Ptr h)) (trace s) = [EvFree (Ptr h), EvReturn 0] \<and>
     list_all (\<lambda>ob. obj_class ob \<noteq> Allocated) (mem s)"
proof -
  from main_trace [OF assms] obtain s where "main w = Inr s"
    and "trace s =
       [EvAuto (stack_addr w) 10, EvMalloc sizeof_int (Ptr h), EvStore (Ptr h) 20,
        EvPrintf (''Address of stack_var: %p'' @ [newline]) [Ptr (stack_addr w)],
        EvPrintf (''Address of heap_var: %p'' @ [newline]) [Ptr h],
        EvPrintf (''Address of global_var: %p'' @ [newline]) [Ptr (global_addr w)],
        EvFree (Ptr h), EvReturn 0]"
    and "list_all (\<lambda>ob. obj_class ob \<noteq> Allocated) (mem s)"
    by blast
  then show ?thesis
    by (simp add: allocations_def releases_def uses_def)
qed

theorem one_allocation_one_release_witness:
  "malloc_result sample_world = Ptr 0x1b2a2a0 \<and>
   (\<exists>s. main sample_world = Inr s \<and>
      allocations (trace s) = [Ptr 0x1b2a2a0] \<and> releases (trace s) = [Ptr 0x1b2a2a0] \<and>
      dropWhile (\<lambda>e. e \<noteq> EvFree (Ptr 0x1b2a2a0)) (trace s) = [EvFree (Ptr 0x1b2a2a0), EvReturn 0])"
  using one_allocation_one_release [OF sample_malloc] sample_malloc by blast

text \<open>
  Claim C3 speaks of every run. In a run whose allocation fails, no block is obtained, the
  store through the null pointer stops the run, and \<^verbatim>\<open>free\<close> is never called: there is
  neither one allocation nor one release.
\<close>

theorem failed_allocation_counterexample:
  "placement_ok null_world \<and>
   fault_of (main null_world) = Some NullDereference \<and>
   allocations (trace (state_of (main null_world))) = [] \<and>
   releases (trace (state_of (main null_world))) = []"
proof -
  have "malloc_result null_world = NULL" by (simp add: null_world_def)
  then have "fault_of (main null_world) = Some NullDereference \<and>
      allocations (trace (state_of (main null_world))) = [] \<and>
      releases (trace (state_of (main null_world))) = []"
    by (simp add: run_defs stmt_defs fault_of_def state_of_def allocations_def releases_def)
  with sample_placement(2) show ?thesis by blast
qed

text \<open>
  Claim C4. The result of \<^verbatim>\<open>malloc\<close> becomes the value of \<^verbatim>\<open>heap_var\<close> whatever it
  is, and the next statement stores through it without a test: the run is at the store in
  either case, and the store faults (a null dereference) exactly when the allocation
  failed. So does the whole of \<^verbatim>\<open>main\<close>.
\<close>

theorem store_through_unchecked_result:
  "fault_of (at_point 2 w) = None \<and>
   heap_var (state_of (at_point 2 w)) = Some (malloc_result w) \<and>
   fault_of (at_point 3 w) = (if malloc_result w = NULL then Some NullDereference else None) \<and>
   trace (state_of (at_point 3 w)) =
     [EvAuto (stack_addr w) 10, EvMalloc sizeof_int (malloc_result w)] @
     (if malloc_result w = NULL then [] else [EvStore (malloc_result w) 20]) \<and>
   fault_of (main w) = (if malloc_result w = NULL then Some NullDereference else None)"
  by (cases "malloc_result w")
     (simp_all add: run_defs stmt_defs fault_of_def state_of_def)

theorem store_through_unchecked_result_witness:
  "malloc_result null_world = NULL \<and> fault_of (main null_world) = Some NullDereference \<and>
   malloc_result sample_world \<noteq> NULL \<and> fault_of (main sample_world) = None"
  using store_through_unchecked_result [of null_world] store_through_unchecked_result [of sample_world]
  by (simp add: null_world_def sample_malloc)

subsection \<open>Addresses\<close>

text \<open>
  Claim C5. In every run that conforms to the object model of C, on an implementation
  whose \<^verbatim>\<open>%p\<close> tells pointers apart and stays on one line, the addresses read back from
  standard output are pairwise distinct. They are the renderings of the pointers given to
  \<^verbatim>\<open>printf\<close>: the address of \<^verbatim>\<open>stack_var\<close>, the allocated block and the address of
  \<^verbatim>\<open>global_var\<close>, which are three objects live together when they are printed, so their
  addresses differ. A run whose allocation failed prints no address.
\<close>

theorem reported_addresses_distinct:
  assumes "conforming w" "inj (fmt_ptr w)" "\<forall>p. newline \<notin> set (fmt_ptr w p)"
  shows "distinct (printed_addresses (out (state_of (main w)))) \<and>
         printed_addresses (out (state_of (main w))) =
           map (fmt_ptr w) (reported (trace (state_of (main w)))) \<and>
         distinct (reported (trace (state_of (main w)))) \<and>
         reported (trace (state_of (main w))) =
           (case malloc_result w of
              NULL \<Rightarrow> []
            | Ptr h \<Rightarrow> [Ptr (stack_addr w), Ptr h, Ptr (global_addr w)])"
proof (cases "malloc_result w")
  case NULL
  with main_null_out [OF NULL] show ?thesis
    by (simp add: printed_addresses_def lines_of_def)
next
  case (Ptr h)
  from main_trace [OF Ptr] obtain s where "main w = Inr s"
    and "trace s =
       [EvAuto (stack_addr w) 10, EvMalloc sizeof_int (Ptr h), EvStore (Ptr h) 20,
        EvPrintf (''Address of stack_var: %p'' @ [newline]) [Ptr (stack_addr w)],
        EvPrintf (''Address of heap_var: %p'' @ [newline]) [Ptr h],
        EvPrintf (''Address of global_var: %p'' @ [newline]) [Ptr (global_addr w)],
        EvFree (Ptr h), EvReturn 0]"
    by blast
  then have rep: "reported (trace (state_of (main w))) =
      [Ptr (stack_addr w), Ptr h, Ptr (global_addr w)]"
    by (simp add: state_of_def reported_def)
  have pr: "printed_addresses (out (state_of (main w))) =
      map (fmt_ptr w) [Ptr (stack_addr w), Ptr h, Ptr (global_addr w)]"
    using main_printed [OF Ptr assms(3)] by simp
  have d: "distinct [Ptr (stack_addr w), Ptr h, Ptr (global_addr w)]"
    by (rule conforming_live [OF assms(1) Ptr])
  then have "distinct (map (fmt_ptr w) [Ptr (stack_addr w), Ptr h, Ptr (global_addr w)])"
    using assms(2) by (simp add: inj_eq)
  with rep pr d Ptr show ?thesis by simp
qed

theorem reported_addresses_distinct_witness:
  "conforming glibc_world \<and> inj (fmt_ptr glibc_world) \<and>
   (\<forall>p. newline \<notin> set (fmt_ptr glibc_world p)) \<and>
   printed_addresses (out (state_of (main glibc_world))) =
     [''0x7ffd5c3a6b4c'', ''0x1b2a2a0'', ''0x404028''] \<and>
   distinct (printed_addresses (out (state_of (main glibc_world))))"
proof -
  have i: "inj (fmt_ptr glibc_world)" by (simp add: glibc_world_fields glibc_fmt_inj)
  have n: "\<forall>p. newline \<notin> set (fmt_ptr glibc_world p)"
    by (simp add: glibc_world_fields glibc_fmt_no_newline)
  have r: "glibc_fmt (Ptr 0x7ffd5c3a6b4c) = ''0x7ffd5c3a6b4c''"
    "glibc_fmt (Ptr 0x1b2a2a0) = ''0x1b2a2a0''"
    "glibc_fmt (Ptr 0x404028) = ''0x404028''"
    by (simp_all add: glibc_fmt_def hex_of_numeral hex_of_small hex_digit_def)
  note run = reported_addresses_distinct [OF glibc_conforming i n]
  have c: "reported (trace (state_of (main glibc_world))) =
      [Ptr 0x7ffd5c3a6b4c, Ptr 0x1b2a2a0, Ptr 0x404028]"
    using run by (simp add: glibc_world_fields)
  have b: "printed_addresses (out (state_of (main glibc_world))) =
      map glibc_fmt (reported (trace (state_of (main glibc_world))))"
    using run by (simp add: glibc_world_fields)
  have a: "distinct (printed_addresses (out (state_of (main glibc_world))))"
    using run by blast
  have "printed_addresses (out (state_of (main glibc_world))) =
     [''0x7ffd5c3a6b4c'', ''0x1b2a2a0'', ''0x404028'']"
    by (simp add: b c r)
  with glibc_conforming i n a show ?thesis by blast
qed

subsection \<open>Exit\<close>

text \<open>
  Claim C6. In every run in which the allocation succeeds, \<^verbatim>\<open>main\<close> returns and the exit
  status is 0.
\<close>

theorem exit_status_zero:
  assumes "malloc_result w = Ptr h"
  shows "\<exists>s. main w = Inr s \<and> exit_status s = Some 0"
  using main_trace [OF assms] by blast

theorem exit_status_zero_witness:
  "malloc_result sample_world = Ptr 0x1b2a2a0 \<and>
   (\<exists>s. main sample_world = Inr s \<and> exit_status s = Some 0)"
  using exit_status_zero [OF sample_malloc] sample_malloc by blast

text \<open>
  Claim C8, for the runs in which the allocation succeeds. The eight statements run one
  after the other, each exactly once: after \<open>k < 8\<close> statements the run has performed
  \<open>k\<close> operations and has not exited, and after the eighth it has exited with status 0.
\<close>

theorem straight_line_to_exit:
  assumes "malloc_result w = Ptr h"
  shows "(\<forall>k<8. \<exists>s. at_point k w = Inr s \<and> exit_status s = None \<and> length (trace s) = k) \<and>
         (\<exists>s. at_point 8 w = Inr s \<and> main w = Inr s \<and> exit_status s = Some 0 \<and>
              length (trace s) = 8 \<and> length (body 10 20 w) = 8)"
proof -
  have "\<exists>s. at_point k w = Inr s \<and> exit_status s = None \<and> length (trace s) = k" if "k < 8" for k
  proof -
    from that consider "k = 0" | "k = 1" | "k = 2" | "k = 3" | "k = 4" | "k = 5" | "k = 6" | "k = 7"
      by arith
    then show ?thesis
      using assms by cases (simp_all add: run_defs stmt_defs)
  qed
  moreover have "\<exists>s. at_point 8 w = Inr s \<and> main w = Inr s \<and> exit_status s = Some 0 \<and>
              length (trace s) = 8 \<and> length (body 10 20 w) = 8"
    using assms by (simp add: run_defs stmt_defs)
  ultimately show ?thesis by blast
qed

theorem straight_line_to_exit_witness:
  "malloc_result sample_world = Ptr 0x1b2a2a0 \<and>
   (\<exists>s. at_point 5 sample_world = Inr s \<and> exit_status s = None \<and> length (trace s) = 5) \<and>
   (\<exists>s. main sample_world = Inr s \<and> exit_status s = Some 0 \<and> length (trace s) = 8)"
proof -
  from straight_line_to_exit [OF sample_malloc]
  have "\<forall>k<8. \<exists>s. at_point k sample_world = Inr s \<and> exit_status s = None \<and> length (trace s) = k"
    and "\<exists>s. main sample_world = Inr s \<and> exit_status s = Some 0 \<and> length (trace s) = 8"
    by blast+
  moreover have "(5::nat) < 8" by simp
  ultimately show ?thesis using sample_malloc by blast
qed

text \<open>
  Claim C8 speaks of every invocation. An invocation whose allocation fails does not reach
  the exit: it stops at the store through the null pointer, with no exit status.
\<close>

theorem not_every_run_exits_counterexample:
  "placement_ok null_world \<and>
   main null_world \<noteq> Inr (state_of (main null_world)) \<and>
   fault_of (main null_world) = Some NullDereference \<and>
   exit_status (state_of (main null_world)) = None"
proof -
  have "malloc_result null_world = NULL" by (simp add: null_world_def)
  then have "main null_world \<noteq> Inr (state_of (main null_world)) \<and>
      fault_of (main null_world) = Some NullDereference \<and>
      exit_status (state_of (main null_world)) = None"
    by (simp add: run_defs stmt_defs fault_of_def state_of_def)
  with sample_placement(2) show ?thesis by blast
qed

subsection \<open>Information flow\<close>

text \<open>
  Claim C7, for the runs in which the allocation succeeds. The run reads nothing of what
  the process was started with: two worlds that agree on the placement of the two
  variables, on the answer of \<^verbatim>\<open>malloc\<close> and on the rendering of \<^verbatim>\<open>%p\<close> give the same
  outcome, whatever their arguments, environment and standard input. And any two runs
  whose allocation succeeded print the same text up to the addresses: each output is the
  one format of the program filled with the renderings of that run's three addresses,
  the two outputs are equal once every address is rendered as the same text, and both
  runs end without fault with the same exit status.
\<close>

theorem no_input_consumed:
  "(global_addr w' = global_addr w \<and> stack_addr w' = stack_addr w \<and>
    malloc_result w' = malloc_result w \<and> fmt_ptr w' = fmt_ptr w \<longrightarrow> main w' = main w) \<and>
   (malloc_result w \<noteq> NULL \<and> malloc_result w' \<noteq> NULL \<longrightarrow>
      format (fmt_ptr w) report_format [Ptr (stack_addr w), malloc_result w, Ptr (global_addr w)] =
        Some (out (state_of (main w))) \<and>
      format (fmt_ptr w') report_format [Ptr (stack_addr w'), malloc_result w', Ptr (global_addr w')] =
        Some (out (state_of (main w'))) \<and>
      out (state_of (main (masked m w))) = out (state_of (main (masked m w'))) \<and>
      fault_of (main w) = fault_of (main w') \<and>
      exit_status (state_of (main w)) = exit_status (state_of (main w')))"
proof -
  have "format (fmt_ptr w) report_format [Ptr (stack_addr w), malloc_result w, Ptr (global_addr w)] =
        Some (out (state_of (main w))) \<and>
      format (fmt_ptr w') report_format [Ptr (stack_addr w'), malloc_result w', Ptr (global_addr w')] =
        Some (out (state_of (main w'))) \<and>
      out (state_of (main (masked m w))) = out (state_of (main (masked m w'))) \<and>
      fault_of (main w) = fault_of (main w') \<and>
      exit_status (state_of (main w)) = exit_status (state_of (main w'))"
    if ok: "malloc_result w \<noteq> NULL" "malloc_result w' \<noteq> NULL"
  proof -
    from ok obtain h h' where h: "malloc_result w = Ptr h" and h': "malloc_result w' = Ptr h'"
      by (cases "malloc_result w"; cases "malloc_result w'") auto
    have "Some (out (state_of (main (masked m w)))) = Some (out (state_of (main (masked m w'))))"
      using main_masked [OF h, of m NULL NULL NULL] main_masked [OF h', of m NULL NULL NULL]
      by simp
    then show ?thesis
      using main_is_report_format [OF h] main_is_report_format [OF h'] by simp
  qed
  then show ?thesis
    using main_same_choices [of w' w] by blast
qed

theorem no_input_consumed_witness:
  "main (sample_world\<lparr>argv := [''./stack_heap'', ''--help''], environ := [], stdin := ''42''\<rparr>)
     = main sample_world \<and>
   malloc_result sample_world \<noteq> NULL \<and> malloc_result other_world \<noteq> NULL \<and>
   out (state_of (main (masked ''@'' sample_world))) =
     out (state_of (main (masked ''@'' other_world))) \<and>
   exit_status (state_of (main sample_world)) = exit_status (state_of (main other_world))"
proof -
  note same = no_input_consumed
      [where w = sample_world and
         w' = "sample_world\<lparr>argv := [''./stack_heap'', ''--help''], environ := [], stdin := ''42''\<rparr>",
       THEN conjunct1, THEN mp]
  have a: "main (sample_world\<lparr>argv := [''./stack_heap'', ''--help''], environ := [],
                               stdin := ''42''\<rparr>) = main sample_world"
    by (rule same) simp
  have ok: "malloc_result sample_world \<noteq> NULL \<and> malloc_result other_world \<noteq> NULL"
    by (simp add: sample_world_fields other_world_fields)
  note both = no_input_consumed [where w = sample_world and w' = other_world and m = "''@''",
      THEN conjunct2, THEN mp, OF ok]
  from both have b: "out (state_of (main (masked ''@'' sample_world))) =
     out (state_of (main (masked ''@'' other_world)))" by blast
  from both have c: "exit_status (state_of (main sample_world)) =
     exit_status (state_of (main other_world))" by blast
  from a ok b c show ?thesis by blast
qed

text \<open>
  Claim C7 speaks of any two runs. A run whose allocation fails prints nothing, while a
  run started the same way whose allocation succeeds prints three lines: the two outputs
  differ by more than the addresses, also when the addresses are blanked.
\<close>

theorem failed_run_prints_nothing_counterexample:
  "argv null_world = argv sample_world \<and> environ null_world = environ sample_world \<and>
   stdin null_world = stdin sample_world \<and> global_addr null_world = global_addr sample_world \<and>
   stack_addr null_world = stack_addr sample_world \<and> fmt_ptr null_world = fmt_ptr sample_world \<and>
   lines_of (out (state_of (main (masked [] sample_world)))) =
     [''Address of stack_var: '', ''Address of heap_var: '', ''Address of global_var: ''] \<and>
   lines_of (out (state_of (main (masked [] null_world)))) = [] \<and>
   out (state_of (main sample_world)) \<noteq> out (state_of (main null_world))"
proof -
  have s: "malloc_result (masked [] sample_world) = Ptr 0x1b2a2a0"
    "malloc_result (masked [] null_world) = NULL" "malloc_result null_world = NULL"
    "fmt_ptr (masked [] sample_world) = (\<lambda>p. [])"
    by (simp_all add: masked_def null_world_def sample_world_def)
  have "lines_of (out (state_of (main (masked [] sample_world)))) =
     [''Address of stack_var: '', ''Address of heap_var: '', ''Address of global_var: '']"
    using s(1,4) by (simp add: run_defs stmt_defs state_of_def lines_of_def)
  moreover have "lines_of (out (state_of (main (masked [] null_world)))) = []"
    using s(2) by (simp add: run_defs stmt_defs state_of_def lines_of_def)
  moreover have "out (state_of (main null_world)) = []"
    using s(3) by (simp add: run_defs stmt_defs state_of_def)
  moreover have "out (state_of (main sample_world)) \<noteq> []"
    using sample_malloc by (simp add: run_defs stmt_defs state_of_def)
  ultimately show ?thesis
    by (simp add: null_world_def)
qed

text \<open>
  Claim C9. At every program point of every run, \<^verbatim>\<open>global_var\<close> holds 42 and no store
  performed so far went through its address; this holds in the last state of the run too.
\<close>

theorem global_var_never_written:
  assumes "placement_ok w"
  shows "load_int (mem (state_of (at_point k w))) (Ptr (global_addr w)) = Inr 42 \<and>
         list_all (\<lambda>e. \<not> writes_to (Ptr (global_addr w)) e) (trace (state_of (at_point k w))) \<and>
         load_int (mem (state_of (main w))) (Ptr (global_addr w)) = Inr 42 \<and>
         list_all (\<lambda>e. \<not> writes_to (Ptr (global_addr w)) e) (trace (state_of (main w)))"
proof -
  have "global_intact 42 w (state_of (at_point j w))" for j
    unfolding at_point_def by (rule run_upto_intact [OF assms])
  from this [of k] this [of 8] show ?thesis
    by (simp add: at_point_all global_intact_def)
qed

theorem global_var_never_written_witness:
  "placement_ok sample_world \<and>
   load_int (mem (state_of (at_point 7 sample_world))) (Ptr 0x404028) = Inr 42 \<and>
   load_int (mem (state_of (main sample_world))) (Ptr 0x404028) = Inr 42"
  using global_var_never_written [OF sample_placement(1), of 7] sample_placement(1)
  by (simp add: sample_world_fields)

text \<open>
  Claim C10. With any three values in place of the literals 10, 20 and 42, the run
  writes the same text to standard output as \<^verbatim>\<open>main\<close>, stops at the same fault if any,
  and exits with the same status.
\<close>

theorem literals_do_not_reach_output:
  "out (state_of (run_with a b c w)) = out (state_of (main w)) \<and>
   fault_of (run_with a b c w) = fault_of (main w) \<and>
   exit_status (state_of (run_with a b c w)) = exit_status (state_of (main w))"
  by (cases "malloc_result w")
     (simp_all add: run_defs stmt_defs fault_of_def state_of_def)

theorem literals_do_not_reach_output_witness:
  "out (state_of (run_with 1 2 3 sample_world)) = out (state_of (run_with 10 20 42 sample_world)) \<and>
   out (state_of (run_with 1 2 3 null_world)) = []"
proof -
  have "out (state_of (main null_world)) = []"
    by (simp add: run_defs stmt_defs null_world_def state_of_def)
  with literals_do_not_reach_output [of 1 2 3 sample_world]
    literals_do_not_reach_output [of 1 2 3 null_world]
  show ?thesis by (simp add: main_def)
qed

end
